theory Spec2Isabelle
  imports Main
begin

section \<open>The credit economy of the figurine plugin (economy.py, main.py)\<close>

text \<open>
  The development embeds \<^verbatim>\<open>EconomyManager\<close> of \<^verbatim>\<open>src/economy.py\<close> and the
  admission / refund path of \<^verbatim>\<open>FigurineProPlugin.on_message\<close> of \<^verbatim>\<open>src/main.py\<close>.

  Conventions of the embedding:
  \<^item> Python's unbounded integers are \<open>int\<close>; identifiers are \<open>string\<close>, taken after
    the source's \<^verbatim>\<open>str(...)\<close> canonicalisation.
  \<^item> A dict is a map; \<^verbatim>\<open>d.get(k, default)\<close> is \<open>dict_get d k default\<close>.
  \<^item> The three in-memory dicts of the manager are the fields of the record \<open>economy\<close>;
    every method takes the state and returns the updated one.
  \<^item> \<^verbatim>\<open>_save_json\<close> writes a copy of a dict to disk and swallows its own errors; it
    neither changes the in-memory dicts nor any returned value, so the calls to it are
    not part of the state transformers below.
  \<^item> The user-visible messages of the source are Chinese format strings. Each return
    statement gets its own constructor, carrying the numbers the string interpolates.
\<close>

subsection \<open>Configuration\<close>

text \<open>
  The configuration object is read with \<^verbatim>\<open>conf.get(key, default)\<close> in economy.py and
  with \<^verbatim>\<open>conf.get(key)\<close> (no default) in main.py. A field is \<open>None\<close> when the key is
  not defined.
\<close>

record config =
  enable_user_limit :: "bool option"
  enable_group_limit :: "bool option"
  enable_checkin :: "bool option"
  checkin_fixed_reward :: "int option"
  enable_random_checkin :: "bool option"
  checkin_random_reward_max :: "int option"
  admins_id :: "string list option"
  user_blacklist :: "string list option"

text \<open>\<^verbatim>\<open>conf.get(key, default)\<close>\<close>

definition conf_get :: "'a option \<Rightarrow> 'a \<Rightarrow> 'a" where
  "conf_get v d = (case v of None \<Rightarrow> d | Some x \<Rightarrow> x)"

text \<open>\<^verbatim>\<open>conf.get(key)\<close> in a boolean position: an undefined key gives \<^verbatim>\<open>None\<close>, which is falsy.\<close>

definition conf_truthy :: "bool option \<Rightarrow> bool" where
  "conf_truthy v = (case v of None \<Rightarrow> False | Some b \<Rightarrow> b)"

subsection \<open>State of the manager\<close>

type_synonym ledger = "string \<rightharpoonup> int"

record economy =
  user_counts :: ledger
  group_counts :: ledger
  user_checkin_data :: "string \<rightharpoonup> string"

definition dict_get :: "('k \<rightharpoonup> 'v) \<Rightarrow> 'k \<Rightarrow> 'v \<Rightarrow> 'v" where
  "dict_get d k dflt = (case d k of None \<Rightarrow> dflt | Some v \<Rightarrow> v)"

definition get_user_count :: "economy \<Rightarrow> string \<Rightarrow> int" where
  "get_user_count s user_id = dict_get (user_counts s) user_id 0"

definition get_group_count :: "economy \<Rightarrow> string \<Rightarrow> int" where
  "get_group_count s group_id = dict_get (group_counts s) group_id 0"

subsection \<open>check_and_deduct\<close>

text \<open>
  The return sites of \<^verbatim>\<open>check_and_deduct\<close>, by source line:
  \<^item> line 65, \<open>NoLimitMode\<close>: "no-limit mode";
  \<^item> line 81, \<open>GroupRemainingInsufficient g_cnt\<close>: "this group's remaining count is
    insufficient (g_cnt)";
  \<^item> line 99, \<open>UserAndGroupInsufficient u_cnt g_cnt\<close>: "your count is insufficient (u_cnt),
    and the group's count is insufficient too (g_cnt)";
  \<^item> line 101, \<open>UserInsufficient u_cnt\<close>: "your count is insufficient (u_cnt)";
  \<^item> line 110, \<open>GroupInsufficient\<close>: "this group's count is insufficient";
  \<^item> line 116, \<open>Success\<close>: "success";
  \<^item> line 118, \<open>LimitNotEnabled\<close>: "limit not enabled", the catch-all.
\<close>

datatype deduct_msg =
    NoLimitMode
  | GroupRemainingInsufficient int
  | UserAndGroupInsufficient int int
  | UserInsufficient int
  | GroupInsufficient
  | Success
  | LimitNotEnabled

text \<open>The local variable \<^verbatim>\<open>source\<close>: \<^verbatim>\<open>""\<close>, \<^verbatim>\<open>"user"\<close> or \<^verbatim>\<open>"group"\<close>.\<close>

datatype source = SrcNone | SrcUser | SrcGroup

definition cost :: int where
  "cost = 1"

text \<open>
  \<^verbatim>\<open>gid = str(group_id) if group_id else None\<close>: a missing or empty group id is
  \<^verbatim>\<open>None\<close>.
\<close>

definition canon_gid :: "string option \<Rightarrow> string option" where
  "canon_gid group_id =
     (case group_id of
        None \<Rightarrow> None
      | Some g \<Rightarrow> if g = [] then None else Some g)"

text \<open>
  The condition \<^verbatim>\<open>gid and enable_group_limit\<close>: it holds exactly when the result is
  \<open>Some g\<close>, and then \<open>g\<close> is the group id.
\<close>

definition gid_and :: "string option \<Rightarrow> bool \<Rightarrow> string option" where
  "gid_and gid flag = (if flag then gid else None)"

text \<open>
  The result is the updated state, the returned pair (success flag, message), and the
  value of the local \<^verbatim>\<open>source\<close> when the function returns. The source returns only the
  pair; the fourth component is exposed because the properties speak of the debited ledger.
\<close>

definition check_and_deduct ::
  "config \<Rightarrow> string \<Rightarrow> string option \<Rightarrow> economy \<Rightarrow> economy \<times> bool \<times> deduct_msg \<times> source" where
  "check_and_deduct conf user_id group_id s =
    (let uid = user_id;
         gid = canon_gid group_id;
         enable_user = conf_get (enable_user_limit conf) True;
         enable_group = conf_get (enable_group_limit conf) False
     in
     if \<not> enable_user \<and> \<not> enable_group then (s, True, NoLimitMode, SrcNone)
     else
       case (case gid_and gid enable_group of
               Some g \<Rightarrow>
                 (let g_cnt = dict_get (group_counts s) g 0
                  in if g_cnt < cost then Some g_cnt else None)
             | None \<Rightarrow> None) of
         Some g_cnt \<Rightarrow> (s, False, GroupRemainingInsufficient g_cnt, SrcNone)
       | None \<Rightarrow>
          (if enable_user then
             (let u_cnt = dict_get (user_counts s) uid 0
              in if u_cnt \<ge> cost then
                   (s\<lparr>user_counts := (user_counts s)(uid \<mapsto> u_cnt - cost)\<rparr>,
                    True, Success, SrcUser)
                 else
                   (case gid_and gid enable_group of
                      Some g \<Rightarrow>
                        (let g_cnt = dict_get (group_counts s) g 0
                         in if g_cnt \<ge> cost then
                              (s\<lparr>group_counts := (group_counts s)(g \<mapsto> g_cnt - cost)\<rparr>,
                               True, Success, SrcGroup)
                            else (s, False, UserAndGroupInsufficient u_cnt g_cnt, SrcNone))
                    | None \<Rightarrow> (s, False, UserInsufficient u_cnt, SrcNone)))
           else
             (case gid_and gid enable_group of
                Some g \<Rightarrow>
                  (let g_cnt = dict_get (group_counts s) g 0
                   in if g_cnt \<ge> cost then
                        (s\<lparr>group_counts := (group_counts s)(g \<mapsto> g_cnt - cost)\<rparr>,
                         True, Success, SrcGroup)
                      else (s, False, GroupInsufficient, SrcNone))
              | None \<Rightarrow> (s, True, LimitNotEnabled, SrcNone))))"

subsection \<open>admin_add_points\<close>

datatype add_msg =
    AddedGroup string int int
  | AddedUser string int int

definition admin_add_points ::
  "string \<Rightarrow> int \<Rightarrow> bool \<Rightarrow> economy \<Rightarrow> economy \<times> add_msg" where
  "admin_add_points target_id count is_group s =
    (let tid = target_id
     in if is_group then
          (let curr = dict_get (group_counts s) tid 0;
               s' = s\<lparr>group_counts := (group_counts s)(tid \<mapsto> curr + count)\<rparr>
           in (s', AddedGroup tid count (dict_get (group_counts s') tid 0)))
        else
          (let curr = dict_get (user_counts s) tid 0;
               s' = s\<lparr>user_counts := (user_counts s)(tid \<mapsto> curr + count)\<rparr>
           in (s', AddedUser tid count (dict_get (user_counts s') tid 0))))"

subsection \<open>checkin\<close>

text \<open>
  Exceptions of the Python runtime that the modelled code can meet.
\<close>

datatype py_error =
    ValueError
  | OSError
  | PermissionError
  | UnicodeDecodeError
  | JSONDecodeError

text \<open>
  \<^verbatim>\<open>random.randint(a, b)\<close> of the standard library: it raises \<^verbatim>\<open>ValueError\<close> on an empty
  range and otherwise returns an integer between \<open>a\<close> and \<open>b\<close>, both included. The argument
  \<open>draw\<close> stands for the generator's next output; every integer of the range is the result
  for some \<open>draw\<close>.
\<close>

definition randint :: "int \<Rightarrow> int \<Rightarrow> nat \<Rightarrow> py_error + int" where
  "randint a b draw =
     (if a > b then Inl ValueError else Inr (a + int draw mod (b - a + 1)))"

text \<open>
  The three returned messages of \<^verbatim>\<open>checkin\<close>: line 123 (feature off), line 130 (already
  checked in today, with the current balance), line 146 (granted, with the reward and the
  new balance).
\<close>

datatype checkin_msg =
    CheckinDisabled
  | AlreadyCheckedIn int
  | CheckinGranted int int

text \<open>
  \<open>today\<close> is \<^verbatim>\<open>datetime.now().strftime("%Y-%m-%d")\<close>, the calendar date of the call.
  The two configured rewards are integers, on which \<^verbatim>\<open>int(...)\<close> is the identity.
\<close>

definition checkin ::
  "config \<Rightarrow> string \<Rightarrow> string \<Rightarrow> nat \<Rightarrow> economy \<Rightarrow> py_error + (economy \<times> checkin_msg)" where
  "checkin conf user_id today draw s =
    (if \<not> conf_get (enable_checkin conf) False then Inr (s, CheckinDisabled)
     else
       (let uid = user_id
        in if user_checkin_data s uid = Some today then
             (let curr = dict_get (user_counts s) uid 0
              in Inr (s, AlreadyCheckedIn curr))
           else
             case (let reward = conf_get (checkin_fixed_reward conf) 3
                   in if conf_get (enable_random_checkin conf) False then
                        (let max_r = conf_get (checkin_random_reward_max conf) 5
                         in randint 1 (max 1 max_r) draw)
                      else Inr reward) of
               Inl e \<Rightarrow> Inl e
             | Inr reward \<Rightarrow>
                 (let current = dict_get (user_counts s) uid 0;
                      s' = s\<lparr>user_counts := (user_counts s)(uid \<mapsto> current + reward),
                             user_checkin_data := (user_checkin_data s)(uid \<mapsto> today)\<rparr>
                  in Inr (s', CheckinGranted reward (dict_get (user_counts s') uid 0)))))"

subsection \<open>Loading a store\<close>

text \<open>
  A Python float: \<open>Finite m e\<close> is the binary fraction \<open>m * 2^e\<close>; \<^verbatim>\<open>json.loads\<close> also
  accepts \<^verbatim>\<open>Infinity\<close>, \<^verbatim>\<open>-Infinity\<close> and \<^verbatim>\<open>NaN\<close>.
\<close>

datatype py_float = Finite int int | PosInfinity | NegInfinity | NaN

text \<open>
  The values \<^verbatim>\<open>json.loads\<close> can return. \<^verbatim>\<open>{}\<close> is \<open>JObj []\<close>.
\<close>

datatype json =
    JNull
  | JBool bool
  | JInt int
  | JFloat py_float
  | JStr string
  | JArr "json list"
  | JObj "(string \<times> json) list"



subsection \<open>on_message: admission, generation, refund\<close>

text \<open>
  What \<^verbatim>\<open>on_message\<close> reads from the event and from its collaborators:
  the sender and group ids, whether the first word of the text names a preset, whether the
  preset's prompt contains \<^verbatim>\<open>text_only\<close>, whether the event carries images, and whether
  \<^verbatim>\<open>_call_api\<close> returned image bytes.
\<close>

record event =
  sender_id :: string
  ev_group_id :: "string option"
  preset_hit :: bool
  text_only :: bool
  has_images :: bool
  api_ok :: bool

text \<open>
  The last message \<^verbatim>\<open>on_message\<close> yields: none (lines 193, 200, 205), the rejection of
  line 215, the request for an image of line 233, the image of line 253 (with the remaining
  count when it is shown), the failure notice of line 270.
\<close>

datatype reply =
    NoReply
  | Declined deduct_msg
  | NeedImage
  | Generated "int option"
  | GenerationFailed

definition is_admin :: "config \<Rightarrow> event \<Rightarrow> bool" where
  "is_admin conf ev = (sender_id ev \<in> set (conf_get (admins_id conf) []))"

text \<open>
  The refund of lines 229-232 and, with the same tests, of lines 260-268: the ledger is
  chosen by reading the configuration again.
\<close>

definition refund_points :: "config \<Rightarrow> event \<Rightarrow> economy \<Rightarrow> economy" where
  "refund_points conf ev s =
     (if conf_truthy (enable_user_limit conf) then
        fst (admin_add_points (sender_id ev) 1 False s)
      else
        (case gid_and (canon_gid (ev_group_id ev)) (conf_truthy (enable_group_limit conf)) of
           Some g \<Rightarrow> fst (admin_add_points g 1 True s)
         | None \<Rightarrow> s))"

definition on_message :: "config \<Rightarrow> event \<Rightarrow> economy \<Rightarrow> economy \<times> reply" where
  "on_message conf ev s =
    (if \<not> preset_hit ev then (s, NoReply)
     else if sender_id ev \<in> set (conf_get (user_blacklist conf) []) then (s, NoReply)
     else
       (let skip_cost = is_admin conf ev
        in case (if \<not> skip_cost then
                   (case check_and_deduct conf (sender_id ev) (ev_group_id ev) s of
                      (s1, success, msg, src) \<Rightarrow>
                        if \<not> success then Inl (s1, msg) else Inr s1)
                 else Inr s) of
             Inl (s1, msg) \<Rightarrow> (s1, Declined msg)
           | Inr s1 \<Rightarrow>
               if \<not> has_images ev \<and> \<not> text_only ev then
                 ((if \<not> skip_cost then refund_points conf ev s1 else s1), NeedImage)
               else if api_ok ev then
                 (s1, Generated
                        (if \<not> skip_cost \<and> conf_truthy (enable_user_limit conf)
                         then Some (get_user_count s1 (sender_id ev)) else None))
               else
                 ((if \<not> skip_cost then refund_points conf ev s1 else s1),
                  GenerationFailed)))"

subsection \<open>Sequences of ledger operations\<close>

text \<open>
  A debit is a call of \<open>check_and_deduct\<close>, a credit a call of \<open>admin_add_points\<close>.
\<close>

datatype ledger_op =
    Debit string "string option"
  | Credit string int bool

fun apply_op :: "config \<Rightarrow> economy \<Rightarrow> ledger_op \<Rightarrow> economy" where
  "apply_op conf s (Debit user_id group_id) = fst (check_and_deduct conf user_id group_id s)"
| "apply_op conf s (Credit target_id count is_group) =
     fst (admin_add_points target_id count is_group s)"

fun run_ops :: "config \<Rightarrow> economy \<Rightarrow> ledger_op list \<Rightarrow> economy" where
  "run_ops conf s [] = s"
| "run_ops conf s (x # xs) = run_ops conf (apply_op conf s x) xs"

fun credit_positive :: "ledger_op \<Rightarrow> bool" where
  "credit_positive (Debit user_id group_id) = True"
| "credit_positive (Credit target_id count is_group) = (0 < count)"

definition nonneg :: "economy \<Rightarrow> bool" where
  "nonneg s = (\<forall>k. 0 \<le> get_user_count s k \<and> 0 \<le> get_group_count s k)"

subsection \<open>Sample configurations and states\<close>

definition conf_undefined :: config where
  "conf_undefined =
     \<lparr>enable_user_limit = None, enable_group_limit = None, enable_checkin = None,
      checkin_fixed_reward = None, enable_random_checkin = None,
      checkin_random_reward_max = None, admins_id = None, user_blacklist = None\<rparr>"

definition conf_both :: config where
  "conf_both = conf_undefined\<lparr>enable_user_limit := Some True, enable_group_limit := Some True\<rparr>"

definition conf_group_only :: config where
  "conf_group_only =
     conf_undefined\<lparr>enable_user_limit := Some False, enable_group_limit := Some True\<rparr>"

definition mk_economy :: "ledger \<Rightarrow> ledger \<Rightarrow> economy" where
  "mk_economy us gs = \<lparr>user_counts = us, group_counts = gs, user_checkin_data = Map.empty\<rparr>"

definition conf_checkin_random :: "int \<Rightarrow> config" where
  "conf_checkin_random m =
     conf_undefined\<lparr>enable_checkin := Some True, enable_random_checkin := Some True,
                    checkin_random_reward_max := Some m\<rparr>"

definition conf_checkin_fixed :: "int \<Rightarrow> config" where
  "conf_checkin_fixed r =
     conf_undefined\<lparr>enable_checkin := Some True, checkin_fixed_reward := Some r\<rparr>"

text \<open>
  A group message of an ordinary user that names a preset and carries an image, for which
  the image API fails.
\<close>

definition failed_request :: event where
  "failed_request =
     \<lparr>sender_id = ''u'', ev_group_id = Some ''g'', preset_hit = True, text_only = False,
      has_images = True, api_ok = False\<rparr>"



section \<open>Auxiliary facts\<close>

lemma dict_get_present:
  "cost \<le> dict_get m k 0 \<Longrightarrow> m k = Some (dict_get m k 0)"
  by (cases "m k") (simp_all add: dict_get_def cost_def)

lemma dict_get_upd:
  "dict_get (m(k \<mapsto> v)) k' d = (if k' = k then v else dict_get m k' d)"
  by (simp add: dict_get_def)

lemma nonneg_admin_add_points:
  assumes "nonneg s" and "0 < c"
  shows "nonneg (fst (admin_add_points t c ig s))"
proof (cases ig)
  case True
  with assms show ?thesis
    by (auto simp: nonneg_def admin_add_points_def get_user_count_def get_group_count_def
        dict_get_upd Let_def intro: add_nonneg_nonneg less_imp_le)
next
  case False
  with assms show ?thesis
    by (auto simp: nonneg_def admin_add_points_def get_user_count_def get_group_count_def
        dict_get_upd Let_def intro: add_nonneg_nonneg less_imp_le)
qed

lemma nonneg_check_and_deduct:
  assumes "nonneg s"
  shows "nonneg (fst (check_and_deduct conf uid gid s))"
  using assms
  by (auto simp: nonneg_def check_and_deduct_def get_user_count_def get_group_count_def
      dict_get_upd Let_def split: option.splits if_splits)

lemma nonneg_apply_op:
  "nonneg s \<Longrightarrow> credit_positive x \<Longrightarrow> nonneg (apply_op conf s x)"
  by (cases x) (simp_all add: nonneg_check_and_deduct nonneg_admin_add_points)

lemma nonneg_run_ops:
  "nonneg s \<Longrightarrow> \<forall>x\<in>set ops. credit_positive x \<Longrightarrow> nonneg (run_ops conf s ops)"
proof (induction ops arbitrary: s)
  case Nil
  then show ?case by simp
next
  case (Cons x xs)
  from Cons.prems have "nonneg (apply_op conf s x)"
    by (simp add: nonneg_apply_op)
  moreover from Cons.prems have "\<forall>y\<in>set xs. credit_positive y"
    by simp
  ultimately show ?case
    using Cons.IH by simp
qed

lemma rejected_unchanged:
  "\<not> fst (snd (check_and_deduct conf uid gid s)) \<Longrightarrow> fst (check_and_deduct conf uid gid s) = s"
  by (cases "conf_get (enable_user_limit conf) True";
      cases "conf_get (enable_group_limit conf) False";
      cases "canon_gid gid")
     (simp_all add: check_and_deduct_def gid_and_def Let_def split: if_splits)

lemma rejected_iff:
  "(\<not> fst (snd (check_and_deduct conf uid gid s))) =
     ((\<exists>g. gid_and (canon_gid gid) (conf_get (enable_group_limit conf) False) = Some g
           \<and> get_group_count s g < cost)
      \<or> (conf_get (enable_user_limit conf) True
          \<and> gid_and (canon_gid gid) (conf_get (enable_group_limit conf) False) = None
          \<and> get_user_count s uid < cost))"
  by (cases "conf_get (enable_user_limit conf) True";
      cases "conf_get (enable_group_limit conf) False";
      cases "canon_gid gid")
     (auto simp add: check_and_deduct_def gid_and_def get_user_count_def get_group_count_def
       Let_def)

lemma low_balance_kept:
  "(get_user_count s k < cost \<longrightarrow>
      user_counts (fst (check_and_deduct conf uid gid s)) k = user_counts s k)
   \<and> (get_group_count s k < cost \<longrightarrow>
      group_counts (fst (check_and_deduct conf uid gid s)) k = group_counts s k)"
  by (cases "conf_get (enable_user_limit conf) True";
      cases "conf_get (enable_group_limit conf) False";
      cases "canon_gid gid")
     (auto simp add: check_and_deduct_def gid_and_def get_user_count_def get_group_count_def
       Let_def)

lemma randint_range:
  assumes "a \<le> b"
  shows "\<exists>r. randint a b draw = Inr r \<and> a \<le> r \<and> r \<le> b"
proof -
  let ?n = "b - a + 1"
  from assms have pos: "0 < ?n" by simp
  have lo: "0 \<le> int draw mod ?n"
    using pos by (rule pos_mod_sign)
  have hi: "int draw mod ?n < ?n"
    using pos by (rule pos_mod_bound)
  from assms have "randint a b draw = Inr (a + int draw mod ?n)"
    by (simp add: randint_def)
  moreover from lo have "a \<le> a + int draw mod ?n" by simp
  moreover from hi have "a + int draw mod ?n \<le> b" by simp
  ultimately show ?thesis by blast
qed

section \<open>Properties\<close>

subsection \<open>Hard veto of an exhausted group\<close>

text \<open>
  C3. With both gates enabled and a group id present, a group balance below the cost makes
  \<open>check_and_deduct\<close> reject at once with the group-insufficient message of line 81,
  whatever the user's balance, and the state (both ledgers) is returned as it was.
\<close>

theorem hard_veto:
  assumes "conf_get (enable_user_limit conf) True"
    and "conf_get (enable_group_limit conf) False"
    and "g \<noteq> []"
    and "get_group_count s g < cost"
  shows "check_and_deduct conf uid (Some g) s =
           (s, False, GroupRemainingInsufficient (get_group_count s g), SrcNone)"
  using assms
  by (simp add: check_and_deduct_def canon_gid_def gid_and_def get_group_count_def Let_def)

theorem hard_veto_witness:
  "check_and_deduct conf_both ''u'' (Some ''g'')
      (mk_economy [''u'' \<mapsto> 10] [''g'' \<mapsto> 0]) =
     (mk_economy [''u'' \<mapsto> 10] [''g'' \<mapsto> 0], False, GroupRemainingInsufficient 0, SrcNone)"
  using hard_veto [of conf_both "''g''" "mk_economy [''u'' \<mapsto> 10] [''g'' \<mapsto> 0]" "''u''"]
  by (simp add: conf_both_def conf_undefined_def conf_get_def mk_economy_def
      get_group_count_def dict_get_def cost_def)

subsection \<open>Group fallback\<close>

text \<open>
  C4. With both gates enabled, a group id present, user balance 0 and group balance 5,
  \<open>check_and_deduct\<close> admits with source "group"; only the group's entry changes, the user
  balance is still 0 and the group balance is 4.
\<close>

theorem group_fallback:
  assumes "conf_get (enable_user_limit conf) True"
    and "conf_get (enable_group_limit conf) False"
    and "g \<noteq> []"
    and "get_user_count s uid = 0"
    and "get_group_count s g = 5"
  shows "check_and_deduct conf uid (Some g) s =
           (s\<lparr>group_counts := (group_counts s)(g \<mapsto> 4)\<rparr>, True, Success, SrcGroup)
         \<and> get_user_count (fst (check_and_deduct conf uid (Some g) s)) uid = 0
         \<and> get_group_count (fst (check_and_deduct conf uid (Some g) s)) g = 4"
  using assms
  by (simp add: check_and_deduct_def canon_gid_def gid_and_def get_group_count_def
      get_user_count_def dict_get_def cost_def Let_def)

theorem group_fallback_witness:
  "check_and_deduct conf_both ''u'' (Some ''g'') (mk_economy Map.empty [''g'' \<mapsto> 5]) =
     (mk_economy Map.empty [''g'' \<mapsto> 4], True, Success, SrcGroup)"
  using group_fallback [of conf_both "''g''" "mk_economy Map.empty [''g'' \<mapsto> 5]" "''u''"]
  by (simp add: conf_both_def conf_undefined_def conf_get_def mk_economy_def
      get_group_count_def get_user_count_def dict_get_def)

subsection \<open>Defaults of the two gates\<close>

text \<open>
  C10. When the configuration defines neither \<^verbatim>\<open>enable_user_limit\<close> nor
  \<^verbatim>\<open>enable_group_limit\<close>, the user gate is on and the group gate is off: a user with
  balance 0 is rejected with the user-insufficient message of line 101, with or without a
  group id, and the state is returned as it was.
\<close>

theorem default_gates:
  assumes "enable_user_limit conf = None"
    and "enable_group_limit conf = None"
    and "get_user_count s uid = 0"
  shows "conf_get (enable_user_limit conf) True
         \<and> \<not> conf_get (enable_group_limit conf) False
         \<and> check_and_deduct conf uid gid s = (s, False, UserInsufficient 0, SrcNone)"
  using assms
  by (simp add: check_and_deduct_def conf_get_def gid_and_def get_user_count_def
      cost_def Let_def)

theorem default_gates_witness:
  "check_and_deduct conf_undefined ''u'' None (mk_economy Map.empty [''g'' \<mapsto> 5]) =
     (mk_economy Map.empty [''g'' \<mapsto> 5], False, UserInsufficient 0, SrcNone)
   \<and> check_and_deduct conf_undefined ''u'' (Some ''g'') (mk_economy Map.empty [''g'' \<mapsto> 5]) =
     (mk_economy Map.empty [''g'' \<mapsto> 5], False, UserInsufficient 0, SrcNone)"
  using default_gates [of conf_undefined "mk_economy Map.empty [''g'' \<mapsto> 5]" "''u''" None]
    default_gates [of conf_undefined "mk_economy Map.empty [''g'' \<mapsto> 5]" "''u''" "Some ''g''"]
  by (simp add: conf_undefined_def mk_economy_def get_user_count_def dict_get_def)

subsection \<open>The catch-all return\<close>

text \<open>
  C5 as stated (the catch-all of line 118 is never reached) fails: with the user gate
  off, the group gate on and no group id (a private chat), neither the test of line 84 nor
  the one of line 102 holds, and the function falls through to line 118.
\<close>

theorem catch_all_reached:
  "check_and_deduct conf_group_only ''u'' None (mk_economy Map.empty Map.empty) =
     (mk_economy Map.empty Map.empty, True, LimitNotEnabled, SrcNone)"
  by (simp add: check_and_deduct_def conf_group_only_def conf_undefined_def conf_get_def
      canon_gid_def gid_and_def Let_def)

text \<open>
  C5, amended. The catch-all of line 118 is reached exactly when the user gate is off, the
  group gate is on and no group id is present; it then admits and leaves the state as it was.
  On every other input the result comes from one of the earlier return sites.
\<close>

theorem catch_all_exactly:
  "(fst (snd (snd (check_and_deduct conf uid gid s))) = LimitNotEnabled)
     = (\<not> conf_get (enable_user_limit conf) True
        \<and> conf_get (enable_group_limit conf) False
        \<and> canon_gid gid = None)
   \<and> (fst (snd (snd (check_and_deduct conf uid gid s))) = LimitNotEnabled
        \<longrightarrow> check_and_deduct conf uid gid s = (s, True, LimitNotEnabled, SrcNone))"
  by (simp add: check_and_deduct_def gid_and_def Let_def split: option.splits)

theorem catch_all_exactly_witness:
  "fst (snd (snd (check_and_deduct conf_group_only ''u'' (Some [])
      (mk_economy Map.empty Map.empty)))) = LimitNotEnabled
   \<and> fst (snd (snd (check_and_deduct conf_group_only ''u'' (Some ''g'')
      (mk_economy Map.empty Map.empty)))) \<noteq> LimitNotEnabled"
  using catch_all_exactly [of conf_group_only "''u''" "Some []" "mk_economy Map.empty Map.empty"]
    catch_all_exactly [of conf_group_only "''u''" "Some ''g''" "mk_economy Map.empty Map.empty"]
  by (simp add: conf_group_only_def conf_undefined_def conf_get_def canon_gid_def)

subsection \<open>Non-negative balances\<close>

text \<open>
  C1. Starting from non-negative balances, every sequence of debits (calls of
  \<open>check_and_deduct\<close>, cost 1) and credits (calls of \<open>admin_add_points\<close> with a positive
  amount) leaves every user balance and every group balance non-negative. Moreover, for
  every call of \<open>check_and_deduct\<close>:
  a rejected call returns the state as it was;
  the call is rejected exactly when the group gate applies (gate on, group id present) and
  the group balance is below the cost, or the user gate is on, the group gate does not
  apply and the user balance is below the cost;
  and an entry whose balance is below the cost is never written.
\<close>

theorem ledger_non_negative:
  "(nonneg s \<and> (\<forall>x\<in>set ops. credit_positive x) \<longrightarrow> nonneg (run_ops conf s ops))
   \<and> (\<not> fst (snd (check_and_deduct conf uid gid t)) \<longrightarrow>
        fst (check_and_deduct conf uid gid t) = t)
   \<and> ((\<exists>g. gid_and (canon_gid gid) (conf_get (enable_group_limit conf) False) = Some g
            \<and> get_group_count t g < cost)
        \<or> (conf_get (enable_user_limit conf) True
            \<and> gid_and (canon_gid gid) (conf_get (enable_group_limit conf) False) = None
            \<and> get_user_count t uid < cost)
       \<longleftrightarrow> \<not> fst (snd (check_and_deduct conf uid gid t)))
   \<and> (get_user_count t k < cost \<longrightarrow>
        user_counts (fst (check_and_deduct conf uid gid t)) k = user_counts t k)
   \<and> (get_group_count t k < cost \<longrightarrow>
        group_counts (fst (check_and_deduct conf uid gid t)) k = group_counts t k)"
proof -
  have "nonneg s \<and> (\<forall>x\<in>set ops. credit_positive x) \<longrightarrow> nonneg (run_ops conf s ops)"
    using nonneg_run_ops by blast
  moreover have "\<not> fst (snd (check_and_deduct conf uid gid t)) \<longrightarrow>
      fst (check_and_deduct conf uid gid t) = t"
    using rejected_unchanged by blast
  moreover note rejected_iff [of conf uid gid t, symmetric]
    low_balance_kept [of t k conf uid gid]
  ultimately show ?thesis
    by blast
qed

theorem ledger_non_negative_witness:
  "nonneg (mk_economy [''u'' \<mapsto> 1] Map.empty)
   \<and> list_all credit_positive
        [Debit ''u'' (Some ''g''), Credit ''g'' 2 True, Debit ''u'' (Some ''g''),
         Debit ''u'' (Some ''g''), Debit ''u'' (Some ''g'')]
   \<and> nonneg (run_ops conf_both (mk_economy [''u'' \<mapsto> 1] Map.empty)
        [Debit ''u'' (Some ''g''), Credit ''g'' 2 True, Debit ''u'' (Some ''g''),
         Debit ''u'' (Some ''g''), Debit ''u'' (Some ''g'')])
   \<and> \<not> fst (snd (check_and_deduct conf_both ''u'' (Some ''g'')
                    (mk_economy [''u'' \<mapsto> 1] Map.empty)))
   \<and> fst (check_and_deduct conf_both ''u'' (Some ''g'') (mk_economy [''u'' \<mapsto> 1] Map.empty))
       = mk_economy [''u'' \<mapsto> 1] Map.empty"
proof -
  have a: "nonneg (mk_economy [''u'' \<mapsto> 1] Map.empty)"
    by (simp add: nonneg_def mk_economy_def get_user_count_def get_group_count_def dict_get_def)
  have b: "\<forall>x\<in>set [Debit ''u'' (Some ''g''), Credit ''g'' 2 True, Debit ''u'' (Some ''g''),
                 Debit ''u'' (Some ''g''), Debit ''u'' (Some ''g'')]. credit_positive x"
    by simp
  have c: "gid_and (canon_gid (Some ''g'')) (conf_get (enable_group_limit conf_both) False)
             = Some ''g''
           \<and> get_group_count (mk_economy [''u'' \<mapsto> 1] Map.empty) ''g'' < cost"
    by (simp add: gid_and_def canon_gid_def conf_get_def conf_both_def conf_undefined_def
        get_group_count_def mk_economy_def dict_get_def cost_def)
  have d: "list_all credit_positive
        [Debit ''u'' (Some ''g''), Credit ''g'' 2 True, Debit ''u'' (Some ''g''),
         Debit ''u'' (Some ''g''), Debit ''u'' (Some ''g'')]"
    by simp
  show ?thesis
    using a b c d
      ledger_non_negative [of "mk_economy [''u'' \<mapsto> 1] Map.empty"
        "[Debit ''u'' (Some ''g''), Credit ''g'' 2 True, Debit ''u'' (Some ''g''),
          Debit ''u'' (Some ''g''), Debit ''u'' (Some ''g'')]"
        conf_both "''u''" "Some ''g''" "mk_economy [''u'' \<mapsto> 1] Map.empty" "''u''"]
    by blast
qed

subsection \<open>Conservation under refund\<close>

text \<open>
  C6. When \<open>check_and_deduct\<close> admits with a debit from the user ledger (source "user"),
  the user's balance has dropped by the cost, and crediting the cost back to the same user
  with \<open>admin_add_points\<close> gives back the state before the debit: that balance and every
  other balance are as they were. The same holds for a debit from the group ledger and a
  credit to the same group.
\<close>

theorem refund_conservation:
  assumes "check_and_deduct conf uid gid s = (s', True, m, src)"
  shows "(src = SrcUser \<longrightarrow>
            get_user_count s' uid = get_user_count s uid - cost
            \<and> fst (admin_add_points uid cost False s') = s)
         \<and> (src = SrcGroup \<longrightarrow>
            (\<exists>g. canon_gid gid = Some g
                 \<and> get_group_count s' g = get_group_count s g - cost
                 \<and> fst (admin_add_points g cost True s') = s))"
  using assms
  by (auto simp: check_and_deduct_def admin_add_points_def gid_and_def get_user_count_def
      get_group_count_def dict_get_upd dict_get_present map_upd_triv Let_def
      split: option.splits if_splits)

theorem refund_conservation_witness:
  "check_and_deduct conf_both ''u'' (Some ''g'') (mk_economy [''u'' \<mapsto> 0] [''g'' \<mapsto> 5])
     = (mk_economy [''u'' \<mapsto> 0] [''g'' \<mapsto> 4], True, Success, SrcGroup)
   \<and> fst (admin_add_points ''g'' cost True (mk_economy [''u'' \<mapsto> 0] [''g'' \<mapsto> 4]))
     = mk_economy [''u'' \<mapsto> 0] [''g'' \<mapsto> 5]"
proof -
  have a: "check_and_deduct conf_both ''u'' (Some ''g'')
             (mk_economy [''u'' \<mapsto> 0] [''g'' \<mapsto> 5])
           = (mk_economy [''u'' \<mapsto> 0] [''g'' \<mapsto> 4], True, Success, SrcGroup)"
    by (simp add: check_and_deduct_def conf_both_def conf_undefined_def conf_get_def
        canon_gid_def gid_and_def mk_economy_def dict_get_def cost_def Let_def)
  show ?thesis
    using a refund_conservation [OF a]
    by (simp add: canon_gid_def)
qed

subsection \<open>Daily check-in\<close>

text \<open>
  C7. With check-in enabled, the first call of \<open>checkin\<close> on a date returns normally and
  leaves that date recorded for the user; if it granted a reward, the balance grew by it.
  A second call on the same date, whatever the generator draws, reports
  already-checked-in with the balance reached after the first call and returns the state
  (balances and check-in records) exactly as the first call left it.
\<close>

theorem checkin_idempotent:
  assumes "conf_get (enable_checkin conf) False"
  shows "\<exists>s1 m1. checkin conf uid today d1 s = Inr (s1, m1)
           \<and> (\<forall>r b. m1 = CheckinGranted r b \<longrightarrow>
                 get_user_count s1 uid = get_user_count s uid + r)
           \<and> user_checkin_data s1 uid = Some today
           \<and> checkin conf uid today d2 s1 = Inr (s1, AlreadyCheckedIn (get_user_count s1 uid))"
proof -
  obtain q where q: "randint 1 (max 1 (conf_get (checkin_random_reward_max conf) 5)) d1 = Inr q"
    using randint_range [of 1 "max 1 (conf_get (checkin_random_reward_max conf) 5)" d1]
    by auto
  show ?thesis
    using assms q
    by (auto simp: checkin_def get_user_count_def dict_get_upd Let_def split: if_splits)
qed

theorem checkin_idempotent_witness:
  "checkin (conf_checkin_fixed 3) ''u'' ''2025-06-01'' 0 (mk_economy Map.empty Map.empty)
     = Inr (\<lparr>user_counts = [''u'' \<mapsto> 3], group_counts = Map.empty,
             user_checkin_data = [''u'' \<mapsto> ''2025-06-01'']\<rparr>, CheckinGranted 3 3)
   \<and> checkin (conf_checkin_fixed 3) ''u'' ''2025-06-01'' 1
        \<lparr>user_counts = [''u'' \<mapsto> 3], group_counts = Map.empty,
         user_checkin_data = [''u'' \<mapsto> ''2025-06-01'']\<rparr>
     = Inr (\<lparr>user_counts = [''u'' \<mapsto> 3], group_counts = Map.empty,
             user_checkin_data = [''u'' \<mapsto> ''2025-06-01'']\<rparr>, AlreadyCheckedIn 3)"
proof -
  have en: "conf_get (enable_checkin (conf_checkin_fixed 3)) False"
    by (simp add: conf_checkin_fixed_def conf_undefined_def conf_get_def)
  have first: "checkin (conf_checkin_fixed 3) ''u'' ''2025-06-01'' 0
                 (mk_economy Map.empty Map.empty)
     = Inr (\<lparr>user_counts = [''u'' \<mapsto> 3], group_counts = Map.empty,
             user_checkin_data = [''u'' \<mapsto> ''2025-06-01'']\<rparr>, CheckinGranted 3 3)"
    by (simp add: checkin_def conf_checkin_fixed_def conf_undefined_def conf_get_def
        mk_economy_def dict_get_def Let_def)
  show ?thesis
    using first
      checkin_idempotent [OF en, of "''u''" "''2025-06-01''" 0 "mk_economy Map.empty Map.empty" 1]
    by (simp add: get_user_count_def dict_get_def)
qed

text \<open>
  C8. \<open>checkin\<close> never raises. When check-in is enabled and the user has not checked in
  today, a reward is granted and added to the balance. Every granted reward lies between 1
  and \<open>max 1 checkin_random_reward_max\<close> when random check-in is enabled, also for a
  configured maximum of zero or less, and equals the configured fixed reward when it is
  disabled.
\<close>

theorem checkin_reward:
  "(\<exists>res. checkin conf uid today draw s = Inr res)
   \<and> (conf_get (enable_checkin conf) False \<and> user_checkin_data s uid \<noteq> Some today \<longrightarrow>
        (\<exists>s' r. checkin conf uid today draw s
                   = Inr (s', CheckinGranted r (get_user_count s uid + r))
               \<and> get_user_count s' uid = get_user_count s uid + r))
   \<and> (checkin conf uid today draw s = Inr (s', CheckinGranted r b) \<longrightarrow>
        (if conf_get (enable_random_checkin conf) False
         then 1 \<le> r \<and> r \<le> max 1 (conf_get (checkin_random_reward_max conf) 5)
         else r = conf_get (checkin_fixed_reward conf) 3))"
proof -
  obtain q where q: "randint 1 (max 1 (conf_get (checkin_random_reward_max conf) 5)) draw = Inr q"
    "1 \<le> q" "q \<le> max 1 (conf_get (checkin_random_reward_max conf) 5)"
    using randint_range [of 1 "max 1 (conf_get (checkin_random_reward_max conf) 5)" draw]
    by auto
  show ?thesis
    using q
    by (auto simp: checkin_def get_user_count_def dict_get_upd Let_def split: if_splits)
qed

theorem checkin_reward_witness:
  "checkin (conf_checkin_random (- 3)) ''u'' ''2025-06-01'' 12 (mk_economy Map.empty Map.empty)
     = Inr (\<lparr>user_counts = [''u'' \<mapsto> 1], group_counts = Map.empty,
             user_checkin_data = [''u'' \<mapsto> ''2025-06-01'']\<rparr>, CheckinGranted 1 1)
   \<and> max 1 (conf_get (checkin_random_reward_max (conf_checkin_random (- 3))) 5) = 1
   \<and> checkin (conf_checkin_random 5) ''u'' ''2025-06-01'' 12 (mk_economy Map.empty Map.empty)
     = Inr (\<lparr>user_counts = [''u'' \<mapsto> 3], group_counts = Map.empty,
             user_checkin_data = [''u'' \<mapsto> ''2025-06-01'']\<rparr>, CheckinGranted 3 3)
   \<and> checkin (conf_checkin_fixed 0) ''u'' ''2025-06-01'' 12 (mk_economy Map.empty Map.empty)
     = Inr (\<lparr>user_counts = [''u'' \<mapsto> 0], group_counts = Map.empty,
             user_checkin_data = [''u'' \<mapsto> ''2025-06-01'']\<rparr>, CheckinGranted 0 0)"
proof -
  have a: "checkin (conf_checkin_random (- 3)) ''u'' ''2025-06-01'' 12
             (mk_economy Map.empty Map.empty)
     = Inr (\<lparr>user_counts = [''u'' \<mapsto> 1], group_counts = Map.empty,
             user_checkin_data = [''u'' \<mapsto> ''2025-06-01'']\<rparr>, CheckinGranted 1 1)"
    by (simp add: checkin_def randint_def conf_checkin_random_def conf_undefined_def
        conf_get_def mk_economy_def dict_get_def Let_def)
  have b: "checkin (conf_checkin_random 5) ''u'' ''2025-06-01'' 12
             (mk_economy Map.empty Map.empty)
     = Inr (\<lparr>user_counts = [''u'' \<mapsto> 3], group_counts = Map.empty,
             user_checkin_data = [''u'' \<mapsto> ''2025-06-01'']\<rparr>, CheckinGranted 3 3)"
    by (simp add: checkin_def randint_def conf_checkin_random_def conf_undefined_def
        conf_get_def mk_economy_def dict_get_def Let_def)
  have c: "checkin (conf_checkin_fixed 0) ''u'' ''2025-06-01'' 12
             (mk_economy Map.empty Map.empty)
     = Inr (\<lparr>user_counts = [''u'' \<mapsto> 0], group_counts = Map.empty,
             user_checkin_data = [''u'' \<mapsto> ''2025-06-01'']\<rparr>, CheckinGranted 0 0)"
    by (simp add: checkin_def conf_checkin_fixed_def conf_undefined_def
        conf_get_def mk_economy_def dict_get_def Let_def)
  show ?thesis
    using a b c
      checkin_reward [of "conf_checkin_random (- 3)" "''u''" "''2025-06-01''" 12
        "mk_economy Map.empty Map.empty"
        "\<lparr>user_counts = [''u'' \<mapsto> 1], group_counts = Map.empty,
          user_checkin_data = [''u'' \<mapsto> ''2025-06-01'']\<rparr>" 1 1]
    by (simp add: conf_checkin_random_def conf_undefined_def conf_get_def)
qed

subsection \<open>Loading a store\<close>




subsection \<open>Refund after a failed generation\<close>

text \<open>
  C2 asks that the refund of the failure path credits the ledger that the admission
  debited. The code does not do so after a group fallback: with both gates enabled, user
  balance 0 and group balance 5, \<open>check_and_deduct\<close> debits the group (5 to 4); when the
  generation fails, \<open>on_message\<close> reads \<^verbatim>\<open>enable_user_limit\<close> again, finds it set and credits
  the user (0 to 1). The group stays at 4.
\<close>

theorem refund_after_group_debit:
  "on_message conf_both failed_request (mk_economy [''u'' \<mapsto> 0] [''g'' \<mapsto> 5])
     = (mk_economy [''u'' \<mapsto> 1] [''g'' \<mapsto> 4], GenerationFailed)"
  by (simp add: on_message_def is_admin_def refund_points_def admin_add_points_def
      check_and_deduct_def failed_request_def conf_both_def conf_undefined_def conf_get_def
      conf_truthy_def canon_gid_def gid_and_def mk_economy_def dict_get_def cost_def Let_def)

end
